theory Spec2Isabelle
  imports Main "HOL-Library.Sublist"
begin

section \<open>Strings as the code uses them\<close>

text \<open>
  A TypeScript string is modelled as a \<^typ>\<open>string\<close>: each \<^typ>\<open>char\<close> is one code
  unit in the range 0..255 (the Latin-1 part of UTF-16). Numbers that the code uses as
  integers (efforts, counts, batch positions) are \<^typ>\<open>int\<close> or \<^typ>\<open>nat\<close>; the
  model is the code's on the safe integers, below \<open>2 ^ 53\<close>.
  An optional field is an \<^typ>\<open>'a option\<close>; JavaScript's truthiness test on an optional
  string (\<^verbatim>\<open>if (x)\<close>, \<^verbatim>\<open>!x\<close>, \<^verbatim>\<open>x || d\<close>) is \<open>truthy\<close>: present and not empty.
\<close>

definition truthy :: "string option \<Rightarrow> bool" where
  "truthy x = (case x of None \<Rightarrow> False | Some s \<Rightarrow> s \<noteq> [])"

text \<open>The class \<^verbatim>\<open>\s\<close> of a regular expression, which is also what \<^verbatim>\<open>trim\<close> strips:
  tab, line feed, vertical tab, form feed, carriage return, space and no-break space.\<close>

definition isSpace :: "char \<Rightarrow> bool" where
  "isSpace c = (c = CHR 0x09 \<or> c = CHR 0x0A \<or> c = CHR 0x0B \<or> c = CHR 0x0C
     \<or> c = CHR 0x0D \<or> c = CHR 0x20 \<or> c = CHR 0xA0)"

text \<open>The line terminators, which \<^verbatim>\<open>.\<close> does not match.\<close>

definition isLineTerminator :: "char \<Rightarrow> bool" where
  "isLineTerminator c = (c = CHR 0x0A \<or> c = CHR 0x0D)"

definition isDigit :: "char \<Rightarrow> bool" where
  "isDigit c = (let n = (of_char c :: nat) in 48 \<le> n \<and> n \<le> 57)"

definition isWord :: "char \<Rightarrow> bool" where
  "isWord c = (let n = (of_char c :: nat) in
     (48 \<le> n \<and> n \<le> 57) \<or> (65 \<le> n \<and> n \<le> 90) \<or> (97 \<le> n \<and> n \<le> 122) \<or> n = 95)"

definition trimStart :: "string \<Rightarrow> string" where
  "trimStart s = dropWhile isSpace s"

definition trimEnd :: "string \<Rightarrow> string" where
  "trimEnd s = rev (dropWhile isSpace (rev s))"

definition trim :: "string \<Rightarrow> string" where
  "trim s = trimEnd (trimStart s)"

text \<open>\<^verbatim>\<open>toLowerCase\<close> on Latin-1: the capital letters \<open>A\<close> to \<open>Z\<close> and \<open>0xC0\<close> to
  \<open>0xDE\<close> (without the multiplication sign \<open>0xD7\<close>) move up by 32, which sets bit 5 of
  the code.\<close>

definition lowerChar :: "char \<Rightarrow> char" where
  "lowerChar c = (let n = (of_char c :: nat) in
     if (65 \<le> n \<and> n \<le> 90) \<or> (192 \<le> n \<and> n \<le> 222 \<and> n \<noteq> 215)
     then (case c of Char b0 b1 b2 b3 b4 b5 b6 b7 \<Rightarrow> Char b0 b1 b2 b3 b4 True b6 b7)
     else c)"

definition toLowerCase :: "string \<Rightarrow> string" where
  "toLowerCase s = map lowerChar s"

text \<open>\<^verbatim>\<open>hay.includes(needle)\<close> and \<^verbatim>\<open>s.startsWith(p)\<close>.\<close>

fun includesStr :: "string \<Rightarrow> string \<Rightarrow> bool" where
  "includesStr [] needle = (needle = [])"
| "includesStr (x # xs) needle = (prefix needle (x # xs) \<or> includesStr xs needle)"

definition startsWith :: "string \<Rightarrow> string \<Rightarrow> bool" where
  "startsWith s p = prefix p s"

text \<open>\<^verbatim>\<open>s.split('\n')\<close> for a one-character separator: never empty, and a trailing
  separator gives a trailing empty piece.\<close>

fun splitOn :: "char \<Rightarrow> string \<Rightarrow> string list" where
  "splitOn c [] = [[]]"
| "splitOn c (x # xs) =
     (if x = c then [] # splitOn c xs
      else (case splitOn c xs of l # ls \<Rightarrow> (x # l) # ls | [] \<Rightarrow> [[x]]))"

text \<open>\<^verbatim>\<open>lines.join('\n')\<close>.\<close>

fun join :: "string \<Rightarrow> string list \<Rightarrow> string" where
  "join sep [] = []"
| "join sep [l] = l"
| "join sep (l # ls) = l @ sep @ join sep ls"

text \<open>Decimal rendering of a number in a template literal, and \<^verbatim>\<open>parseInt(digits, 10)\<close>
  on a string of digits.\<close>

definition digitChar :: "nat \<Rightarrow> char" where
  "digitChar d = char_of (48 + d)"

fun showNat :: "nat \<Rightarrow> string" where
  "showNat n = (if n < 10 then [digitChar n] else showNat (n div 10) @ [digitChar (n mod 10)])"

declare showNat.simps [simp del]

definition showInt :: "int \<Rightarrow> string" where
  "showInt i = (if i < 0 then CHR ''-'' # showNat (nat (- i)) else showNat (nat i))"

definition digitVal :: "char \<Rightarrow> nat" where
  "digitVal c = of_char c - 48"

definition parseDigits :: "string \<Rightarrow> nat" where
  "parseDigits s = foldl (\<lambda>acc c. 10 * acc + digitVal c) 0 s"

section \<open>The data model (types.ts)\<close>

datatype TaskStatus = Backlog | Todo | InProgress | InReview | Done | Canceled

datatype LessonCategory = Pattern | Decision | Gotcha | Solution | Performance | Balance

record Uncertainty =
  u_title :: string
  u_description :: "string option"
  u_resolution :: "string option"
  u_resolvedAt :: "string option"
  u_resolvedBy :: "string option"

record LessonLearned =
  l_content :: string
  l_category :: "LessonCategory option"
  l_tags :: "string list option"

text \<open>\<^verbatim>\<open>IssueMetadata\<close>. The complexity bias is a string here: \<^verbatim>\<open>parseMetadata\<close> casts
  whatever word it reads to the enumeration without checking it.\<close>

record IssueMetadata =
  m_goal :: "string option"
  m_effort :: int
  m_effortReason :: "string option"
  m_complexityBias :: "string option"
  m_uncertainties :: "Uncertainty list"
  m_lessonsLearned :: "LessonLearned list"

text \<open>\<^verbatim>\<open>Task\<close>, with the fields that the policies, the filter and the tree walk read.\<close>

datatype Task = Task
  (t_taskID: string)
  (t_title: string)
  (t_description: "string option")
  (t_linearIssueKey: "string option")
  (t_effort: int)
  (t_status: TaskStatus)
  (t_subtasks: "Task list option")
  (t_uncertainties: "Uncertainty list option")
  (t_labels: "string list option")

text \<open>An uncertainty as a caller may give it: a bare title or an object.\<close>

datatype UncertaintyInput = UTitle string | UObject Uncertainty

text \<open>
  Every \<^verbatim>\<open>throw new Error(...)\<close> of the modelled code is a constructor that carries the
  values its message interpolates; every logger call is a constructor of \<open>advisory\<close> in
  the same way.
\<close>

datatype error =
    InvalidEffort int
  | MissingUncertainties string int
  | UnresolvedUncertainties string nat
  | UnknownProject string "string list"
  | TaskNotFound string
  | BatchTooLarge
  | BatchInvalidEffort nat string int
  | BatchMissingUncertainties nat string
  | BatchIndexOutOfRange nat int nat
  | SelfDependency nat
  | ForwardDependency nat int
  | CreateFailed nat string
  | ExternalFailure string

datatype advisory =
    SoleProjectDefault string
  | MultipleProjects "string list"
  | EffortReasonMissing int
  | LowEffortNote int
  | NeedsDecompositionAdvisory string int
  | HighUncertaintyAdvisory nat
  | ProceedingAnyway string nat

section \<open>EffortPolicy (effort-policy.ts) and UncertaintyPolicy (uncertainty-policy.ts)\<close>

definition FIBONACCI_EFFORT_VALUES :: "int list" where
  "FIBONACCI_EFFORT_VALUES = [1, 2, 3, 5, 8, 13, 21]"

definition isFibonacciEffort :: "int \<Rightarrow> bool" where
  "isFibonacciEffort v = (v \<in> set FIBONACCI_EFFORT_VALUES)"

definition needsDecomposition :: "int \<Rightarrow> bool" where
  "needsDecomposition effort = (effort > 3)"



datatype UncertaintyResolutionMode = Off | Warn | Block

text \<open>\<^verbatim>\<open>validateForCreation\<close> returns nothing and logs nothing: its result is the error
  or \<open>()\<close>. The optional array is absent (\<open>None\<close>) or a list.\<close>

definition validateForCreation :: "string \<Rightarrow> int \<Rightarrow> 'a list option \<Rightarrow> error + unit" where
  "validateForCreation taskTitle effort uncertainties =
     (if \<not> needsDecomposition effort then Inr ()
      else
        let count = (case uncertainties of Some us \<Rightarrow> length us | None \<Rightarrow> 0)
        in if count = 0 then Inl (MissingUncertainties taskTitle effort) else Inr ())"

definition unresolvedCount :: "Task \<Rightarrow> nat" where
  "unresolvedCount task =
     (case t_uncertainties task of
        Some us \<Rightarrow> length (filter (\<lambda>u. \<not> truthy (u_resolution u) \<and> \<not> truthy (u_resolvedAt u)) us)
      | None \<Rightarrow> 0)"

definition taskKey :: "Task \<Rightarrow> string" where
  "taskKey task = (case t_linearIssueKey task of Some k \<Rightarrow> k | None \<Rightarrow> t_taskID task)"

text \<open>\<^verbatim>\<open>handleDecompositionGuard\<close>: the result is the error thrown, or the list of
  warnings given to the logger.\<close>

definition handleDecompositionGuard :: "UncertaintyResolutionMode \<Rightarrow> Task \<Rightarrow> error + advisory list" where
  "handleDecompositionGuard mode task =
     (if mode = Off then Inr []
      else if unresolvedCount task = 0 then Inr []
      else if mode = Block then Inl (UnresolvedUncertainties (taskKey task) (unresolvedCount task))
      else Inr [ProceedingAnyway (taskKey task) (unresolvedCount task)])"

section \<open>MetadataCodec (linear-metadata.ts)\<close>

definition metadataDefaultEffort :: int where
  "metadataDefaultEffort = 5"

definition METADATA_SEPARATOR :: string where
  "METADATA_SEPARATOR = ''---WORKFLOW-METADATA---''"

definition METADATA_END :: string where
  "METADATA_END = ''---END-METADATA---''"

abbreviation (input) NL :: string where
  "NL \<equiv> [CHR 0x0A]"

definition categoryName :: "LessonCategory \<Rightarrow> string" where
  "categoryName c = (case c of Pattern \<Rightarrow> ''pattern'' | Decision \<Rightarrow> ''decision''
     | Gotcha \<Rightarrow> ''gotcha'' | Solution \<Rightarrow> ''solution'' | Performance \<Rightarrow> ''performance''
     | Balance \<Rightarrow> ''balance'')"

text \<open>\<^verbatim>\<open>LessonCategorySchema.safeParse\<close>: the category a word names, if any.\<close>

definition parseCategory :: "string \<Rightarrow> LessonCategory option" where
  "parseCategory w =
     (if w = ''pattern'' then Some Pattern else if w = ''decision'' then Some Decision
      else if w = ''gotcha'' then Some Gotcha else if w = ''solution'' then Some Solution
      else if w = ''performance'' then Some Performance else if w = ''balance'' then Some Balance
      else None)"

subsection \<open>buildDescriptionWithMetadata\<close>

text \<open>\<^verbatim>\<open>if (x) { lines.push(prefix + x) }\<close> for an optional string \<open>x\<close>.\<close>

definition optLine :: "string \<Rightarrow> string option \<Rightarrow> string list" where
  "optLine p x = (case x of Some s \<Rightarrow> (if s \<noteq> [] then [p @ s] else []) | None \<Rightarrow> [])"

definition uncertaintyLines :: "Uncertainty \<Rightarrow> string list" where
  "uncertaintyLines u =
     [''- ['' @ (if truthy (u_resolution u) then ''x'' else '' '') @ ''] '' @ u_title u]
     @ optLine ''  - Description: '' (u_description u)
     @ optLine ''  - Resolution: '' (u_resolution u)
     @ optLine ''  - Resolved By: '' (u_resolvedBy u)
     @ optLine ''  - Resolved At: '' (u_resolvedAt u)"

definition lessonLine :: "LessonLearned \<Rightarrow> string" where
  "lessonLine l =
     ''- '' @ (case l_category l of Some c \<Rightarrow> ''['' @ categoryName c @ '']'' | None \<Rightarrow> [])
     @ '' '' @ l_content l"

definition goalText :: "string option \<Rightarrow> string" where
  "goalText g = (if truthy g then (case g of Some s \<Rightarrow> s | None \<Rightarrow> []) else ''Not specified'')"

definition metadataLines :: "IssueMetadata \<Rightarrow> string list" where
  "metadataLines m =
     [METADATA_SEPARATOR,
      ''**Goal:** '' @ goalText (m_goal m),
      ''**Effort:** '' @ showInt (m_effort m)]
     @ optLine ''**Effort Reason:** '' (m_effortReason m)
     @ optLine ''**Complexity Bias:** '' (m_complexityBias m)
     @ [[], ''**Uncertainties:**'']
     @ concat (map uncertaintyLines (m_uncertainties m))
     @ [[], ''**Lessons Learned:**'']
     @ map lessonLine (m_lessonsLearned m)
     @ [METADATA_END]"

definition buildDescriptionWithMetadata :: "string \<Rightarrow> IssueMetadata \<Rightarrow> string" where
  "buildDescriptionWithMetadata plainDescription metadata =
     join NL (metadataLines metadata) @ NL @ NL @ plainDescription"

subsection \<open>The regular expressions of parseMetadata\<close>

text \<open>
  An unanchored \<^verbatim>\<open>text.match(re)\<close> tries the start positions from left to right and
  returns the first success: \<open>firstMatch m\<close>, where \<open>m\<close> matches \<^verbatim>\<open>re\<close> at the start
  of the text it is given. \<open>lit key k\<close> matches the literal \<open>key\<close> and then \<open>k\<close>.
\<close>

fun firstMatch :: "(string \<Rightarrow> 'a option) \<Rightarrow> string \<Rightarrow> 'a option" where
  "firstMatch m [] = m []"
| "firstMatch m (x # xs) = (case m (x # xs) of Some r \<Rightarrow> Some r | None \<Rightarrow> firstMatch m xs)"

definition lit :: "string \<Rightarrow> (string \<Rightarrow> 'a option) \<Rightarrow> string \<Rightarrow> 'a option" where
  "lit key k t = (if prefix key t then k (drop (length key) t) else None)"

text \<open>\<^verbatim>\<open>([\s\S]*?)needle\<close>: the shortest text after which \<open>needle\<close> follows.\<close>

fun beforeFirst :: "string \<Rightarrow> string \<Rightarrow> string option" where
  "beforeFirst needle [] = (if needle = [] then Some [] else None)"
| "beforeFirst needle (x # xs) =
     (if prefix needle (x # xs) then Some [] else map_option ((#) x) (beforeFirst needle xs))"

text \<open>\<^verbatim>\<open>[\s\S]*?needle\<close>, returning what is left after the match.\<close>

fun afterFirst :: "string \<Rightarrow> string \<Rightarrow> string option" where
  "afterFirst needle [] = (if needle = [] then Some [] else None)"
| "afterFirst needle (x # xs) =
     (if prefix needle (x # xs) then Some (drop (length needle) (x # xs))
      else afterFirst needle xs)"

text \<open>\<^verbatim>\<open>([\s\S]*?)(?=\*\*|$)\<close>: the shortest text after which two asterisks or the end
  of the input follow.\<close>

fun upToStars :: "string \<Rightarrow> string" where
  "upToStars [] = []"
| "upToStars (x # xs) = (if prefix ''**'' (x # xs) then [] else x # upToStars xs)"

text \<open>
  \<^verbatim>\<open>\s*(.+)\<close>: the greedy \<^verbatim>\<open>\s*\<close> takes the whole run of white space. If something
  follows, the group is the rest of that line. If the input ends there, the engine gives
  characters of the run back until \<^verbatim>\<open>.+\<close> can match one: the group is the last
  character of the run that is not a line terminator.
\<close>

definition captureLine :: "string \<Rightarrow> string option" where
  "captureLine t =
     (let ws = takeWhile isSpace t; r = dropWhile isSpace t
      in if r \<noteq> [] then Some (takeWhile (\<lambda>c. \<not> isLineTerminator c) r)
         else (case filter (\<lambda>c. \<not> isLineTerminator c) ws of
                 [] \<Rightarrow> None
               | c # cs \<Rightarrow> Some [last (c # cs)]))"

text \<open>\<^verbatim>\<open>\s*(\d+)\<close> and \<^verbatim>\<open>\s*(\w+)\<close>.\<close>

definition captureClass :: "(char \<Rightarrow> bool) \<Rightarrow> string \<Rightarrow> string option" where
  "captureClass cls t =
     (let d = takeWhile cls (dropWhile isSpace t) in if d = [] then None else Some d)"

definition metadataMatch :: "string \<Rightarrow> string option" where
  "metadataMatch description =
     firstMatch (lit METADATA_SEPARATOR (beforeFirst METADATA_END)) description"

definition goalMatch :: "string \<Rightarrow> string option" where
  "goalMatch metadataText = firstMatch (lit ''**Goal:**'' captureLine) metadataText"

definition effortMatch :: "string \<Rightarrow> string option" where
  "effortMatch metadataText = firstMatch (lit ''**Effort:**'' (captureClass isDigit)) metadataText"

definition effortReasonMatch :: "string \<Rightarrow> string option" where
  "effortReasonMatch metadataText = firstMatch (lit ''**Effort Reason:**'' captureLine) metadataText"

definition complexityBiasMatch :: "string \<Rightarrow> string option" where
  "complexityBiasMatch metadataText =
     firstMatch (lit ''**Complexity Bias:**'' (captureClass isWord)) metadataText"

definition uncertaintiesSection :: "string \<Rightarrow> string option" where
  "uncertaintiesSection metadataText =
     firstMatch (lit ''**Uncertainties:**'' (\<lambda>t. Some (upToStars t))) metadataText"

definition lessonsSection :: "string \<Rightarrow> string option" where
  "lessonsSection metadataText =
     firstMatch (lit ''**Lessons Learned:**'' (\<lambda>t. Some (upToStars t))) metadataText"

text \<open>
  \<^verbatim>\<open>/^- \[([ x])\]\s*(.+)$/\<close>: the box character and the title. The group must reach
  the end of the input, so no line terminator may follow the white space; when nothing
  follows it, the group is the last white-space character, if that is not a line terminator.
\<close>

definition bulletMatch :: "string \<Rightarrow> (char \<times> string) option" where
  "bulletMatch t =
     (case t of
        a # b # c # d # e # rest \<Rightarrow>
          if a = CHR ''-'' \<and> b = CHR '' '' \<and> c = CHR ''['' \<and> (d = CHR '' '' \<or> d = CHR ''x'')
             \<and> e = CHR '']''
          then
            let ws = takeWhile isSpace rest; r = dropWhile isSpace rest
            in if r \<noteq> [] then (if list_ex isLineTerminator r then None else Some (d, r))
               else if ws \<noteq> [] \<and> \<not> isLineTerminator (last ws) then Some (d, [last ws])
               else None
          else None
      | _ \<Rightarrow> None)"

text \<open>
  \<^verbatim>\<open>/^\s*-\s+(?!\[)(.*)$/\<close>: a dash after optional white space, at least one white-space
  character, and the rest of the input, which must hold no line terminator. When the rest
  starts with an opening bracket, the look-ahead fails after the whole run of white space
  and succeeds one character earlier, so the group then starts with the last white-space
  character (that needs a run of two or more).
\<close>

definition detailMatch :: "string \<Rightarrow> string option" where
  "detailMatch rawLine =
     (case dropWhile isSpace rawLine of
        [] \<Rightarrow> None
      | c # rest \<Rightarrow>
          if c = CHR ''-'' then
            let ws = takeWhile isSpace rest; r = dropWhile isSpace rest
            in if ws = [] then None
               else if list_ex isLineTerminator r then None
               else if \<not> prefix ''['' r then Some r
               else if 2 \<le> length ws \<and> \<not> isLineTerminator (last ws) then Some (last ws # r)
               else None
          else None)"

text \<open>\<^verbatim>\<open>/^Key:\s*/i.test(detail)\<close> and
  \<^verbatim>\<open>detail.replace(/^Key:\s*/i, '').trim()\<close>.\<close>

definition keyTest :: "string \<Rightarrow> string \<Rightarrow> bool" where
  "keyTest key detail = (toLowerCase (take (length key) detail) = toLowerCase key)"

definition keyStrip :: "string \<Rightarrow> string \<Rightarrow> string" where
  "keyStrip key detail = trim (dropWhile isSpace (drop (length key) detail))"

subsection \<open>The uncertainty checklist loop\<close>

record UState =
  current :: "Uncertainty option"
  currentResolved :: bool
  collected :: "Uncertainty list"

definition flushCurrent :: "UState \<Rightarrow> UState" where
  "flushCurrent st =
     \<lparr> current = None, currentResolved = False,
       collected =
         (case current st of
            None \<Rightarrow> collected st
          | Some u \<Rightarrow>
              collected st @
                [if currentResolved st \<and> \<not> truthy (u_resolution u)
                 then u\<lparr>u_resolution := Some ''Resolved (no details provided)''\<rparr> else u]) \<rparr>"

definition applyDetail :: "string \<Rightarrow> Uncertainty \<Rightarrow> Uncertainty" where
  "applyDetail detail u =
     (if keyTest ''Resolution:'' detail then u\<lparr>u_resolution := Some (keyStrip ''Resolution:'' detail)\<rparr>
      else if keyTest ''Resolved By:'' detail then u\<lparr>u_resolvedBy := Some (keyStrip ''Resolved By:'' detail)\<rparr>
      else if keyTest ''Resolved At:'' detail then u\<lparr>u_resolvedAt := Some (keyStrip ''Resolved At:'' detail)\<rparr>
      else if keyTest ''Description:'' detail then u\<lparr>u_description := Some (keyStrip ''Description:'' detail)\<rparr>
      else u\<lparr>u_description := Some detail\<rparr>)"

text \<open>One iteration of \<^verbatim>\<open>for (const rawLine of lines)\<close>.\<close>

definition uncertaintyStep :: "UState \<Rightarrow> string \<Rightarrow> UState" where
  "uncertaintyStep st rawLine =
     (let trimmed = trim rawLine in
      if trimmed = [] then st
      else case bulletMatch trimmed of
        Some (box, title) \<Rightarrow>
          (flushCurrent st)\<lparr> current := Some \<lparr> u_title = trim title, u_description = None,
              u_resolution = None, u_resolvedAt = None, u_resolvedBy = None \<rparr>,
            currentResolved := (box = CHR ''x'') \<rparr>
      | None \<Rightarrow>
          (case (detailMatch rawLine, current st) of
             (Some d, Some u) \<Rightarrow>
               let detail = trim d in
               if detail = [] then st else st\<lparr> current := Some (applyDetail detail u) \<rparr>
           | _ \<Rightarrow> st))"

definition parseUncertainties :: "string \<Rightarrow> Uncertainty list" where
  "parseUncertainties section =
     collected (flushCurrent
       (foldl uncertaintyStep \<lparr> current = None, currentResolved = False, collected = [] \<rparr>
          (splitOn (CHR 0x0A) section)))"

subsection \<open>The lessons loop\<close>

text \<open>\<^verbatim>\<open>/- \[(\w+)\]\s*(.+)/\<close>, not anchored: the category word and the content.\<close>

definition categoryMatch :: "string \<Rightarrow> (string \<times> string) option" where
  "categoryMatch line =
     firstMatch (lit ''- ['' (\<lambda>t.
        let w = takeWhile isWord t
        in if w = [] then None
           else (case dropWhile isWord t of
                   [] \<Rightarrow> None
                 | c # r \<Rightarrow> if c = CHR '']'' then map_option (Pair w) (captureLine r) else None)))
       line"

definition plainLesson :: "string \<Rightarrow> LessonLearned list" where
  "plainLesson content =
     (if content \<noteq> [] then [\<lparr> l_content = content, l_category = None, l_tags = None \<rparr>] else [])"

text \<open>What one iteration of \<^verbatim>\<open>for (const line of lessonLines)\<close> pushes.\<close>

definition parseLessonLine :: "string \<Rightarrow> LessonLearned list" where
  "parseLessonLine line =
     (case categoryMatch line of
        Some (categoryValue, c) \<Rightarrow>
          (let contentValue = trim c in
           case parseCategory (trim categoryValue) of
             Some cat \<Rightarrow> [\<lparr> l_content = contentValue, l_category = Some cat, l_tags = None \<rparr>]
           | None \<Rightarrow> plainLesson contentValue)
      | None \<Rightarrow> plainLesson (trim (if prefix ''- '' line then drop 2 line else line)))"

definition parseLessons :: "string \<Rightarrow> LessonLearned list" where
  "parseLessons section =
     concat (map parseLessonLine
       (filter (\<lambda>line. startsWith (trim line) ''- '') (splitOn (CHR 0x0A) section)))"

subsection \<open>parseMetadata and extractPlainDescription\<close>

definition parseMetadata :: "string \<Rightarrow> IssueMetadata" where
  "parseMetadata description =
     (case metadataMatch description of
        None \<Rightarrow> \<lparr> m_goal = None, m_effort = metadataDefaultEffort, m_effortReason = None,
                  m_complexityBias = None, m_uncertainties = [], m_lessonsLearned = [] \<rparr>
      | Some metadataText \<Rightarrow>
          \<lparr> m_goal =
              (case goalMatch metadataText of
                 Some g \<Rightarrow> if g \<noteq> ''Not specified'' then Some (trim g) else None
               | None \<Rightarrow> None),
            m_effort =
              (case effortMatch metadataText of
                 Some d \<Rightarrow> int (parseDigits d)
               | None \<Rightarrow> metadataDefaultEffort),
            m_effortReason =
              (case effortReasonMatch metadataText of
                 Some r \<Rightarrow> if trim r \<noteq> [] then Some (trim r) else None
               | None \<Rightarrow> None),
            m_complexityBias = complexityBiasMatch metadataText,
            m_uncertainties =
              (case uncertaintiesSection metadataText of
                 Some section \<Rightarrow> parseUncertainties section
               | None \<Rightarrow> []),
            m_lessonsLearned =
              (case lessonsSection metadataText of
                 Some section \<Rightarrow> parseLessons section
               | None \<Rightarrow> []) \<rparr>)"

text \<open>\<^verbatim>\<open>text.replace(re, '')\<close> with a regular expression that has no \<^verbatim>\<open>g\<close> flag: the
  first match is cut out. The matcher returns what follows the match.\<close>

fun replaceFirst :: "(string \<Rightarrow> string option) \<Rightarrow> string \<Rightarrow> string" where
  "replaceFirst m [] = (case m [] of Some rest \<Rightarrow> rest | None \<Rightarrow> [])"
| "replaceFirst m (x # xs) =
     (case m (x # xs) of Some rest \<Rightarrow> rest | None \<Rightarrow> x # replaceFirst m xs)"

definition extractPlainDescription :: "string \<Rightarrow> string" where
  "extractPlainDescription description =
     trim (replaceFirst (lit METADATA_SEPARATOR (afterFirst (METADATA_END @ NL @ NL))) description)"

section \<open>TaskFilter (task-filters.ts)\<close>

record TaskFilter =
  f_project :: "string option"
  f_status_in :: "TaskStatus list option"
  f_labels_has_every :: "string list option"
  f_has_unresolved_uncertainties :: "bool option"
  f_ready :: "bool option"
  f_search :: "string option"

text \<open>\<^verbatim>\<open>(task.uncertainties ?? []).some((uncertainty) => !uncertainty.resolution)\<close>.\<close>

definition hasUnresolved :: "Task \<Rightarrow> bool" where
  "hasUnresolved task =
     list_ex (\<lambda>uncertainty. \<not> truthy (u_resolution uncertainty))
       (case t_uncertainties task of Some us \<Rightarrow> us | None \<Rightarrow> [])"

definition taskLabels :: "Task \<Rightarrow> string list" where
  "taskLabels task = (case t_labels task of Some ls \<Rightarrow> ls | None \<Rightarrow> [])"

text \<open>The third argument is \<^verbatim>\<open>context.readyStatuses\<close>.\<close>

definition filterTasks :: "Task list \<Rightarrow> TaskFilter option \<Rightarrow> TaskStatus list option \<Rightarrow> Task list" where
  "filterTasks tasks flt readyStatuses =
     (case flt of
        None \<Rightarrow> tasks
      | Some f \<Rightarrow>
          let filtered = tasks;
              filtered =
                (case f_status_in f of
                   Some (s # ss) \<Rightarrow> filter (\<lambda>task. t_status task \<in> set (s # ss)) filtered
                 | _ \<Rightarrow>
                   (case (f_ready f, readyStatuses) of
                      (Some True, Some desired) \<Rightarrow> filter (\<lambda>task. t_status task \<in> set desired) filtered
                    | _ \<Rightarrow> filtered));
              filtered =
                (case f_labels_has_every f of
                   Some (l # ls) \<Rightarrow>
                     filter (\<lambda>task. list_all (\<lambda>label. label \<in> set (taskLabels task)) (l # ls)) filtered
                 | _ \<Rightarrow> filtered);
              filtered =
                (case f_has_unresolved_uncertainties f of
                   Some b \<Rightarrow> filter (\<lambda>task. if b then hasUnresolved task else \<not> hasUnresolved task) filtered
                 | None \<Rightarrow> filtered);
              filtered =
                (if f_ready f = Some True
                 then filter (\<lambda>task. \<not> hasUnresolved task
                        \<and> \<not> (''needs-decomposition'' \<in> set (taskLabels task))) filtered
                 else filtered);
              filtered =
                (case f_search f of
                   Some (c # cs) \<Rightarrow>
                     (let searchTerm = toLowerCase (c # cs) in
                      filter (\<lambda>task. includesStr (toLowerCase (t_title task)) searchTerm
                          \<or> (case t_description task of
                                Some d \<Rightarrow> includesStr (toLowerCase d) searchTerm
                              | None \<Rightarrow> False)) filtered)
                 | _ \<Rightarrow> filtered)
          in filtered)"

section \<open>TaskTreeEvaluator (task-tree.ts)\<close>





section \<open>ProjectResolver (project-resolver.ts)\<close>




section \<open>WorkflowOrchestrator.createTask (workflow-orchestrator.ts)\<close>

record CreateTaskInput =
  ci_title :: string
  ci_description :: "string option"
  ci_goal :: "string option"
  ci_effort :: int
  ci_effortReason :: "string option"
  ci_complexityBias :: "string option"
  ci_project :: "string option"
  ci_uncertainties :: "UncertaintyInput list option"
  ci_dueDate :: "string option"
  ci_labels :: "string list option"

text \<open>
  \<open>linearCreateTask\<close> is the delegated \<^verbatim>\<open>this.linear.createTask\<close>, which returns the
  created task or fails. The result of \<open>createTask\<close> is the list of its logger calls in
  order and the task or the error.
\<close>

definition resolvedInput :: "CreateTaskInput \<Rightarrow> string option \<Rightarrow> CreateTaskInput" where
  "resolvedInput input projectKey =
     (if truthy projectKey \<and> projectKey \<noteq> ci_project input
      then input\<lparr>ci_project := projectKey\<rparr> else input)"


section \<open>LinearService (integrations/linear/service.ts)\<close>

definition optTrim :: "string option \<Rightarrow> string option" where
  "optTrim x = (case x of Some s \<Rightarrow> (if trim s \<noteq> [] then Some (trim s) else None) | None \<Rightarrow> None)"

text \<open>The function in the \<^verbatim>\<open>map\<close> of \<open>normalizeUncertainties\<close>; \<open>None\<close> is its
  \<^verbatim>\<open>null\<close>, which the following \<^verbatim>\<open>filter\<close> drops.\<close>

fun normalizeCandidate :: "UncertaintyInput \<Rightarrow> Uncertainty option" where
  "normalizeCandidate (UTitle candidate) =
     (let title = trim candidate in
      if title \<noteq> [] then Some \<lparr> u_title = title, u_description = None, u_resolution = None,
                                 u_resolvedAt = None, u_resolvedBy = None \<rparr>
      else None)"
| "normalizeCandidate (UObject candidate) =
     (let title = trim (u_title candidate) in
      if title = [] then None
      else Some \<lparr> u_title = title, u_description = optTrim (u_description candidate),
                  u_resolution = optTrim (u_resolution candidate),
                  u_resolvedAt = optTrim (u_resolvedAt candidate),
                  u_resolvedBy = optTrim (u_resolvedBy candidate) \<rparr>)"

definition normalizeUncertainties :: "UncertaintyInput list option \<Rightarrow> Uncertainty list" where
  "normalizeUncertainties input =
     (case input of None \<Rightarrow> [] | Some cs \<Rightarrow> List.map_filter normalizeCandidate cs)"

subsection \<open>addUncertainties\<close>

text \<open>The loop of \<open>addUncertainties\<close>: the set of normalised titles seen so far, the
  uncertainties of the metadata, and the normalised inputs still to add.\<close>

fun mergeUncertainties :: "string set \<Rightarrow> Uncertainty list \<Rightarrow> Uncertainty list \<Rightarrow> Uncertainty list" where
  "mergeUncertainties normalizedExistingTitles existing [] = existing"
| "mergeUncertainties normalizedExistingTitles existing (uncertainty # rest) =
     (let normalizedTitle = trim (u_title uncertainty) in
      if normalizedTitle = [] \<or> toLowerCase normalizedTitle \<in> normalizedExistingTitles
      then mergeUncertainties normalizedExistingTitles existing rest
      else mergeUncertainties (insert (toLowerCase normalizedTitle) normalizedExistingTitles)
             (existing @ [\<lparr> u_title = normalizedTitle, u_description = u_description uncertainty,
                            u_resolution = None, u_resolvedAt = None, u_resolvedBy = None \<rparr>])
             rest)"

text \<open>
  The issue store is a map from task id to the issue's description. \<open>addUncertainties\<close>
  returns the store after the call, or the error. The first argument is the store;
  \<^verbatim>\<open>issue.description || ''\<close> is the stored text.
\<close>

definition addUncertainties ::
  "(string \<rightharpoonup> string) \<Rightarrow> string \<Rightarrow> UncertaintyInput list \<Rightarrow> error + (string \<rightharpoonup> string)" where
  "addUncertainties store taskID uncertainties =
     (let normalizedInputs = normalizeUncertainties (Some uncertainties) in
      if length normalizedInputs = 0 then Inr store
      else
        (case store taskID of
           None \<Rightarrow> Inl (TaskNotFound taskID)
         | Some description \<Rightarrow>
             let metadata = parseMetadata description;
                 normalizedExistingTitles =
                   set (map (\<lambda>item. toLowerCase (trim (u_title item))) (m_uncertainties metadata));
                 merged = mergeUncertainties normalizedExistingTitles (m_uncertainties metadata)
                            normalizedInputs;
                 plainDescription = extractPlainDescription description
             in Inr (store(taskID \<mapsto>
                  buildDescriptionWithMetadata plainDescription
                    (metadata\<lparr>m_uncertainties := merged\<rparr>)))))"

subsection \<open>batchCreateTasks\<close>

datatype TaskDependencyType = Blocks | BlockedBy | RelatesTo















section \<open>Values used to state the properties\<close>

text \<open>A task whose uncertainties carry other resolvedAt values: \<open>g\<close> gives each
  uncertainty its new resolvedAt.\<close>

definition withResolvedAt :: "(Uncertainty \<Rightarrow> string option) \<Rightarrow> Task \<Rightarrow> Task" where
  "withResolvedAt g task =
     Task (t_taskID task) (t_title task) (t_description task) (t_linearIssueKey task)
       (t_effort task) (t_status task) (t_subtasks task)
       (map_option (map (\<lambda>u. u\<lparr>u_resolvedAt := g u\<rparr>)) (t_uncertainties task))
       (t_labels task)"









text \<open>The predicate that each clause of a filter applies to a task; a clause that is
  absent lets every task pass.\<close>

definition statusClause :: "TaskFilter \<Rightarrow> TaskStatus list option \<Rightarrow> Task \<Rightarrow> bool" where
  "statusClause f readyStatuses task =
     (case f_status_in f of
        Some (s # ss) \<Rightarrow> t_status task \<in> set (s # ss)
      | _ \<Rightarrow> (case (f_ready f, readyStatuses) of
                (Some True, Some desired) \<Rightarrow> t_status task \<in> set desired
              | _ \<Rightarrow> True))"

definition labelsClause :: "TaskFilter \<Rightarrow> Task \<Rightarrow> bool" where
  "labelsClause f task =
     (case f_labels_has_every f of
        Some (l # ls) \<Rightarrow> list_all (\<lambda>label. label \<in> set (taskLabels task)) (l # ls)
      | _ \<Rightarrow> True)"

definition readyClause :: "TaskFilter \<Rightarrow> Task \<Rightarrow> bool" where
  "readyClause f task =
     (if f_ready f = Some True
      then \<not> hasUnresolved task \<and> \<not> (''needs-decomposition'' \<in> set (taskLabels task))
      else True)"

definition searchClause :: "TaskFilter \<Rightarrow> Task \<Rightarrow> bool" where
  "searchClause f task =
     (case f_search f of
        Some (c # cs) \<Rightarrow>
          includesStr (toLowerCase (t_title task)) (toLowerCase (c # cs))
          \<or> (case t_description task of
                Some d \<Rightarrow> includesStr (toLowerCase d) (toLowerCase (c # cs))
              | None \<Rightarrow> False)
      | _ \<Rightarrow> True)"

definition otherClauses :: "TaskFilter \<Rightarrow> TaskStatus list option \<Rightarrow> Task \<Rightarrow> bool" where
  "otherClauses f readyStatuses task =
     (statusClause f readyStatuses task \<and> labelsClause f task \<and> readyClause f task
      \<and> searchClause f task)"

definition emptyFilter :: TaskFilter where
  "emptyFilter = \<lparr> f_project = None, f_status_in = None, f_labels_has_every = None,
     f_has_unresolved_uncertainties = None, f_ready = None, f_search = None \<rparr>"

text \<open>A task whose only uncertainty has a resolvedAt and no resolution.\<close>

definition datedTask :: Task where
  "datedTask = Task ''task-1'' ''Task'' None None 3 Todo None
     (Some [\<lparr> u_title = ''Open'', u_description = None, u_resolution = None,
              u_resolvedAt = Some ''2024-01-02T03:04:05.000Z'', u_resolvedBy = None \<rparr>])
     (Some [])"




section \<open>Notions used to state the properties of the codec\<close>

text \<open>Lines, each followed by a line feed.\<close>

definition unl :: "string list \<Rightarrow> string" where
  "unl ls = concat (map (\<lambda>l. l @ NL) ls)"

text \<open>
  A string that the block holds as it is: not empty, without white space at either end,
  on one line, and containing neither two asterisks in a row nor the end marker.
\<close>

definition safeText :: "string \<Rightarrow> bool" where
  "safeText s =
     (s \<noteq> [] \<and> trim s = s \<and> \<not> list_ex isLineTerminator s
      \<and> \<not> includesStr s ''**'' \<and> \<not> includesStr s METADATA_END)"

definition safeOpt :: "string option \<Rightarrow> bool" where
  "safeOpt x = (case x of None \<Rightarrow> True | Some s \<Rightarrow> safeText s)"

definition safeUncertainty :: "Uncertainty \<Rightarrow> bool" where
  "safeUncertainty u =
     (safeText (u_title u) \<and> safeOpt (u_description u) \<and> safeOpt (u_resolution u)
      \<and> safeOpt (u_resolvedAt u) \<and> safeOpt (u_resolvedBy u))"

definition safeLesson :: "LessonLearned \<Rightarrow> bool" where
  "safeLesson l =
     (safeText (l_content l)
      \<and> (l_category l = None \<longrightarrow> \<not> includesStr (l_content l) ''- [''))"

definition safeMetadata :: "IssueMetadata \<Rightarrow> bool" where
  "safeMetadata m =
     (safeOpt (m_goal m) \<and> m_goal m \<noteq> Some ''Not specified''
      \<and> 0 \<le> m_effort m \<and> m_effort m < 2 ^ 53
      \<and> safeOpt (m_effortReason m)
      \<and> (case m_complexityBias m of None \<Rightarrow> True | Some w \<Rightarrow> w \<noteq> [] \<and> list_all isWord w)
      \<and> list_all safeUncertainty (m_uncertainties m)
      \<and> list_all safeLesson (m_lessonsLearned m))"

text \<open>A metadata value none of whose encoded strings contains the end marker.\<close>

definition endFreeOpt :: "string option \<Rightarrow> bool" where
  "endFreeOpt x = (case x of None \<Rightarrow> True | Some s \<Rightarrow> \<not> includesStr s METADATA_END)"

definition endFreeUncertainty :: "Uncertainty \<Rightarrow> bool" where
  "endFreeUncertainty u =
     (\<not> includesStr (u_title u) METADATA_END \<and> endFreeOpt (u_description u)
      \<and> endFreeOpt (u_resolution u) \<and> endFreeOpt (u_resolvedAt u) \<and> endFreeOpt (u_resolvedBy u))"

definition endFree :: "IssueMetadata \<Rightarrow> bool" where
  "endFree m =
     (endFreeOpt (m_goal m) \<and> endFreeOpt (m_effortReason m) \<and> endFreeOpt (m_complexityBias m)
      \<and> list_all endFreeUncertainty (m_uncertainties m)
      \<and> list_all (\<lambda>l. \<not> includesStr (l_content l) METADATA_END) (m_lessonsLearned m))"

definition emptyMetadata :: IssueMetadata where
  "emptyMetadata = \<lparr> m_goal = None, m_effort = 5, m_effortReason = None,
     m_complexityBias = None, m_uncertainties = [], m_lessonsLearned = [] \<rparr>"

text \<open>The lines that \<open>metadataLines\<close> puts between the two markers.\<close>

definition innerLines :: "IssueMetadata \<Rightarrow> string list" where
  "innerLines m =
     [''**Goal:** '' @ goalText (m_goal m), ''**Effort:** '' @ showInt (m_effort m)]
     @ optLine ''**Effort Reason:** '' (m_effortReason m)
     @ optLine ''**Complexity Bias:** '' (m_complexityBias m)
     @ [[], ''**Uncertainties:**'']
     @ concat (map uncertaintyLines (m_uncertainties m))
     @ [[], ''**Lessons Learned:**'']
     @ map lessonLine (m_lessonsLearned m)"

text \<open>A metadata value whose effort reason is the end marker.\<close>

definition markerReason :: IssueMetadata where
  "markerReason = emptyMetadata\<lparr> m_effortReason := Some ''---END-METADATA---'' \<rparr>"

text \<open>The key by which \<open>addUncertainties\<close> compares titles, and the record it stores
  for an input.\<close>

definition titleKey :: "Uncertainty \<Rightarrow> string" where
  "titleKey u = toLowerCase (trim (u_title u))"

definition stored :: "Uncertainty \<Rightarrow> Uncertainty" where
  "stored u = \<lparr> u_title = trim (u_title u), u_description = u_description u,
     u_resolution = None, u_resolvedAt = None, u_resolvedBy = None \<rparr>"

section \<open>Properties of the policies\<close>

text \<open>
  C2. \<^verbatim>\<open>validateForCreation\<close> throws the missing-uncertainties error exactly when the
  effort is above 3 and the uncertainty list is empty or absent; it never throws for an
  effort of at most 3; and when it does not throw it returns nothing and has no effect.
\<close>

theorem C2_validateForCreation:
  "validateForCreation title effort us =
     (if effort > 3 \<and> (us = None \<or> us = Some [])
      then Inl (MissingUncertainties title effort) else Inr ())"
  by (cases us) (auto simp: validateForCreation_def needsDecomposition_def)

theorem C2_validateForCreation_witness:
  "validateForCreation ''T'' 5 (None :: string list option) = Inl (MissingUncertainties ''T'' 5)
   \<and> validateForCreation ''T'' 5 (Some ([] :: string list)) = Inl (MissingUncertainties ''T'' 5)
   \<and> validateForCreation ''T'' 5 (Some [''risk'']) = Inr ()
   \<and> validateForCreation ''T'' 3 (None :: string list option) = Inr ()"
  using C2_validateForCreation [of "''T''" 5 "None :: string list option"]
    C2_validateForCreation [of "''T''" 5 "Some ([] :: string list)"]
    C2_validateForCreation [of "''T''" 5 "Some [''risk'']"]
    C2_validateForCreation [of "''T''" 3 "None :: string list option"]
  by simp

text \<open>
  C3. \<^verbatim>\<open>handleDecompositionGuard\<close> counts the uncertainties of the task that have
  neither a resolution nor a resolvedAt. In mode off it never throws (and warns nothing);
  in mode block it throws the unresolved-uncertainties error exactly when the count is
  positive; in mode warn it never throws and gives exactly one warning exactly when the
  count is positive, none otherwise.
\<close>

theorem C3_decompositionGuard:
  "unresolvedCount task =
     length (filter (\<lambda>u. \<not> truthy (u_resolution u) \<and> \<not> truthy (u_resolvedAt u))
       (case t_uncertainties task of Some us \<Rightarrow> us | None \<Rightarrow> []))
   \<and> handleDecompositionGuard Off task = Inr []
   \<and> handleDecompositionGuard Block task =
       (if unresolvedCount task > 0
        then Inl (UnresolvedUncertainties (taskKey task) (unresolvedCount task)) else Inr [])
   \<and> handleDecompositionGuard Warn task =
       Inr (if unresolvedCount task > 0
            then [ProceedingAnyway (taskKey task) (unresolvedCount task)] else [])"
  by (auto simp: handleDecompositionGuard_def unresolvedCount_def split: option.splits)

section \<open>Properties of the orchestrator's createTask\<close>

lemma resolvedInput_sel [simp]:
  "ci_effort (resolvedInput input p) = ci_effort input"
  "ci_uncertainties (resolvedInput input p) = ci_uncertainties input"
  "ci_title (resolvedInput input p) = ci_title input"
  "ci_effortReason (resolvedInput input p) = ci_effortReason input"
  by (simp_all add: resolvedInput_def)







section \<open>Properties of the tree walk\<close>






section \<open>Properties of the task filter\<close>

lemma withResolvedAt_sel [simp]:
  "t_status (withResolvedAt g t) = t_status t"
  "t_title (withResolvedAt g t) = t_title t"
  "t_description (withResolvedAt g t) = t_description t"
  "taskLabels (withResolvedAt g t) = taskLabels t"
  by (simp_all add: withResolvedAt_def taskLabels_def)

lemma hasUnresolved_withResolvedAt [simp]:
  "hasUnresolved (withResolvedAt g t) = hasUnresolved t"
  by (cases "t_uncertainties t") (simp_all add: hasUnresolved_def withResolvedAt_def list_ex_iff)

lemma filter_map_inv:
  "(\<And>x. P (h x) = P x) \<Longrightarrow> filter P (map h xs) = map h (filter P xs)"
  by (induction xs) auto

lemma status_stage:
  "(case f_status_in f of
      Some (s # ss) \<Rightarrow> filter (\<lambda>task. t_status task \<in> set (s # ss)) xs
    | _ \<Rightarrow> (case (f_ready f, rs) of
              (Some True, Some desired) \<Rightarrow> filter (\<lambda>task. t_status task \<in> set desired) xs
            | _ \<Rightarrow> xs))
   = filter (statusClause f rs) xs"
proof (cases "f_status_in f")
  case None
  show ?thesis
  proof (cases "f_ready f")
    case None
    then show ?thesis using \<open>f_status_in f = None\<close> by (simp add: statusClause_def)
  next
    case (Some r)
    then show ?thesis using \<open>f_status_in f = None\<close>
      by (cases r; cases rs) (auto simp: statusClause_def intro!: filter_cong)
  qed
next
  case (Some sl)
  show ?thesis
  proof (cases sl)
    case Nil
    show ?thesis
    proof (cases "f_ready f")
      case None
      then show ?thesis using Some Nil by (simp add: statusClause_def)
    next
      case (Some r)
      then show ?thesis using \<open>f_status_in f = Some sl\<close> Nil
        by (cases r; cases rs) (auto simp: statusClause_def intro!: filter_cong)
    qed
  next
    case (Cons s ss)
    have "statusClause f rs = (\<lambda>task. t_status task \<in> set (s # ss))"
      using Some Cons by (auto simp: statusClause_def)
    then show ?thesis using Some Cons by simp
  qed
qed

lemma labels_stage:
  "(case f_labels_has_every f of
      Some (l # ls) \<Rightarrow> filter (\<lambda>task. list_all (\<lambda>label. label \<in> set (taskLabels task)) (l # ls)) xs
    | _ \<Rightarrow> xs)
   = filter (labelsClause f) xs"
proof (cases "f_labels_has_every f")
  case None
  then show ?thesis by (simp add: labelsClause_def)
next
  case (Some ll)
  then show ?thesis by (cases ll) (auto simp: labelsClause_def intro!: filter_cong)
qed

lemma ready_stage:
  "(if f_ready f = Some True
    then filter (\<lambda>task. \<not> hasUnresolved task \<and> \<not> (''needs-decomposition'' \<in> set (taskLabels task))) xs
    else xs)
   = filter (readyClause f) xs"
  by (auto simp: readyClause_def intro!: filter_cong)

lemma search_stage:
  "(case f_search f of
      Some (c # cs) \<Rightarrow>
        (let searchTerm = toLowerCase (c # cs) in
         filter (\<lambda>task. includesStr (toLowerCase (t_title task)) searchTerm
            \<or> (case t_description task of
                  Some d \<Rightarrow> includesStr (toLowerCase d) searchTerm
                | None \<Rightarrow> False)) xs)
    | _ \<Rightarrow> xs)
   = filter (searchClause f) xs"
proof (cases "f_search f")
  case None
  then show ?thesis by (simp add: searchClause_def)
next
  case (Some st)
  then show ?thesis by (cases st) (auto simp: searchClause_def Let_def intro!: filter_cong)
qed

lemma filterTasks_stages:
  "filterTasks tasks (Some f) rs =
     filter (searchClause f) (filter (readyClause f)
       (case f_has_unresolved_uncertainties f of
          Some b \<Rightarrow> filter (\<lambda>task. hasUnresolved task = b) (filter (labelsClause f) (filter (statusClause f rs) tasks))
        | None \<Rightarrow> filter (labelsClause f) (filter (statusClause f rs) tasks)))"
proof -
  have b: "\<And>b. (\<lambda>task. if b then hasUnresolved task else \<not> hasUnresolved task) = (\<lambda>task. hasUnresolved task = b)"
    by auto
  show ?thesis
    unfolding filterTasks_def Let_def option.case status_stage labels_stage ready_stage
      search_stage [unfolded Let_def] b ..
qed

lemma filterTasks_clause:
  "filterTasks tasks (Some f) rs =
     filter (\<lambda>task. (case f_has_unresolved_uncertainties f of Some b \<Rightarrow> hasUnresolved task = b | None \<Rightarrow> True)
                    \<and> otherClauses f rs task) tasks"
  unfolding filterTasks_stages
  by (cases "f_has_unresolved_uncertainties f") (auto simp: otherClauses_def intro: filter_cong)

lemma clauses_withResolvedAt [simp]:
  "statusClause f rs (withResolvedAt g t) = statusClause f rs t"
  "labelsClause f (withResolvedAt g t) = labelsClause f t"
  "readyClause f (withResolvedAt g t) = readyClause f t"
  "searchClause f (withResolvedAt g t) = searchClause f t"
  by (simp_all add: statusClause_def labelsClause_def readyClause_def searchClause_def
      split: option.splits list.splits bool.splits)

lemma clauses_update [simp]:
  "statusClause (f\<lparr>f_has_unresolved_uncertainties := x\<rparr>) rs t = statusClause f rs t"
  "labelsClause (f\<lparr>f_has_unresolved_uncertainties := x\<rparr>) t = labelsClause f t"
  "readyClause (f\<lparr>f_has_unresolved_uncertainties := x\<rparr>) t = readyClause f t"
  "searchClause (f\<lparr>f_has_unresolved_uncertainties := x\<rparr>) t = searchClause f t"
  by (simp_all add: statusClause_def labelsClause_def readyClause_def searchClause_def
      split: option.splits list.splits bool.splits)

text \<open>
  C8. For every task list and every filter with the clause has_unresolved_uncertainties
  set to \<open>b\<close>: the result is the result of the same filter without the clause, cut down
  to the tasks for which "some uncertainty has no resolution (absent or empty)" is \<open>b\<close>;
  and giving the uncertainties any other resolvedAt values changes nothing in what is
  selected. The guard of the uncertainty policy differs: a task whose only uncertainty has
  a resolvedAt and no resolution is selected by the clause as unresolved, while the guard
  counts no unresolved uncertainty on it.
\<close>

theorem C8_has_unresolved_uncertainties:
  "filterTasks tasks (Some (f\<lparr>f_has_unresolved_uncertainties := Some b\<rparr>)) rs
     = filter (\<lambda>task. list_ex (\<lambda>u. \<not> truthy (u_resolution u))
                        (case t_uncertainties task of Some us \<Rightarrow> us | None \<Rightarrow> []) = b)
         (filterTasks tasks (Some (f\<lparr>f_has_unresolved_uncertainties := None\<rparr>)) rs)
   \<and> filterTasks (map (withResolvedAt g) tasks) (Some (f\<lparr>f_has_unresolved_uncertainties := Some b\<rparr>)) rs
     = map (withResolvedAt g) (filterTasks tasks (Some (f\<lparr>f_has_unresolved_uncertainties := Some b\<rparr>)) rs)
   \<and> filterTasks [datedTask] (Some (emptyFilter\<lparr>f_has_unresolved_uncertainties := Some True\<rparr>)) None
       = [datedTask]
   \<and> unresolvedCount datedTask = 0"
proof (intro conjI)
  show "filterTasks [datedTask] (Some (emptyFilter\<lparr>f_has_unresolved_uncertainties := Some True\<rparr>)) None
       = [datedTask]"
    by (simp add: filterTasks_def emptyFilter_def datedTask_def hasUnresolved_def truthy_def)
  show "unresolvedCount datedTask = 0"
    by (simp add: unresolvedCount_def datedTask_def truthy_def)
  have eq: "\<And>P Q (xs :: Task list). filter P (filter Q xs) = filter (\<lambda>x. P x \<and> Q x) xs"
    by (auto intro: filter_cong)
  have oc: "\<And>x. otherClauses (f\<lparr>f_has_unresolved_uncertainties := x\<rparr>) rs = otherClauses f rs"
    by (rule ext) (simp add: otherClauses_def)
  show "filterTasks tasks (Some (f\<lparr>f_has_unresolved_uncertainties := Some b\<rparr>)) rs
     = filter (\<lambda>task. list_ex (\<lambda>u. \<not> truthy (u_resolution u))
                        (case t_uncertainties task of Some us \<Rightarrow> us | None \<Rightarrow> []) = b)
         (filterTasks tasks (Some (f\<lparr>f_has_unresolved_uncertainties := None\<rparr>)) rs)"
    by (auto simp: filterTasks_clause oc hasUnresolved_def intro!: filter_cong)
  show "filterTasks (map (withResolvedAt g) tasks) (Some (f\<lparr>f_has_unresolved_uncertainties := Some b\<rparr>)) rs
     = map (withResolvedAt g) (filterTasks tasks (Some (f\<lparr>f_has_unresolved_uncertainties := Some b\<rparr>)) rs)"
    unfolding filterTasks_clause
    by (rule filter_map_inv) (simp add: otherClauses_def)
qed

section \<open>Properties of batchCreateTasks\<close>








lemma digitChar_values:
  "digitChar 0 = CHR ''0''" "digitChar 1 = CHR ''1''" "digitChar 2 = CHR ''2''"
  "digitChar 3 = CHR ''3''" "digitChar 4 = CHR ''4''" "digitChar 5 = CHR ''5''"
  "digitChar 6 = CHR ''6''" "digitChar 7 = CHR ''7''" "digitChar 8 = CHR ''8''"
  "digitChar 9 = CHR ''9''"
  by code_simp+



section \<open>Searching in text that is built from lines\<close>

lemma includesStr_sublist: "includesStr s k = sublist k s"
  by (induction s) (auto simp: sublist_Cons_right)

lemma includesStr_trans: "includesStr s k \<Longrightarrow> includesStr k k' \<Longrightarrow> includesStr s k'"
  unfolding includesStr_sublist by (rule sublist_order.order_trans)

lemma prefix_cross: "prefix key (a @ c # rest) \<Longrightarrow> c \<notin> set key \<Longrightarrow> prefix key a"
  by (auto simp: prefix_append prefix_Cons)

lemma lit_cross:
  assumes "\<not> includesStr (x # a) key" and "c \<notin> set key"
  shows "\<not> prefix key (x # a @ c # rest)"
proof
  assume "prefix key (x # a @ c # rest)"
  then have "prefix key ((x # a) @ c # rest)" by simp
  then have "prefix key (x # a)" using assms(2) by (rule prefix_cross)
  then show False using assms(1) by simp
qed

lemma firstMatch_lit_skip:
  "\<not> includesStr a key \<Longrightarrow> c \<notin> set key \<Longrightarrow>
   firstMatch (lit key k) (a @ c # rest) = firstMatch (lit key k) (c # rest)"
proof (induction a)
  case Nil
  then show ?case by simp
next
  case (Cons x a)
  have "\<not> prefix key (x # a @ c # rest)" using Cons.prems by (rule lit_cross)
  moreover have "\<not> includesStr a key" using Cons.prems(1) by simp
  ultimately show ?case using Cons by (simp add: lit_def)
qed

lemma firstMatch_lit_line:
  assumes "\<not> includesStr l key" and "CHR 0x0A \<notin> set key" and "key \<noteq> []"
  shows "firstMatch (lit key k) (l @ NL @ rest) = firstMatch (lit key k) rest"
proof -
  have "\<not> prefix key (CHR 0x0A # rest)"
    using assms(2,3) by (cases key) auto
  then show ?thesis using firstMatch_lit_skip [OF assms(1,2), of k rest] by (simp add: lit_def)
qed

lemma firstMatch_lit_unl:
  assumes "\<forall>l \<in> set ls. \<not> includesStr l key" and "CHR 0x0A \<notin> set key" and "key \<noteq> []"
  shows "firstMatch (lit key k) (unl ls @ rest) = firstMatch (lit key k) rest"
  using assms(1)
proof (induction ls)
  case Nil
  then show ?case by (simp add: unl_def)
next
  case (Cons l ls)
  have "firstMatch (lit key k) (l @ NL @ (unl ls @ rest)) = firstMatch (lit key k) (unl ls @ rest)"
    using Cons.prems assms(2,3) by (intro firstMatch_lit_line) auto
  then show ?case using Cons by (simp add: unl_def)
qed

lemma firstMatch_Some: "m t = Some r \<Longrightarrow> firstMatch m t = Some r"
  by (cases t) auto

lemma firstMatch_lit_here: "k t = Some r \<Longrightarrow> firstMatch (lit key k) (key @ t) = Some r"
  by (rule firstMatch_Some) (simp add: lit_def)

lemma firstMatch_lit_none:
  "\<not> includesStr t key \<Longrightarrow> key \<noteq> [] \<Longrightarrow> firstMatch (lit key k) t = None"
  by (induction t) (auto simp: lit_def)

lemma beforeFirst_skip:
  "\<not> includesStr a key \<Longrightarrow> c \<notin> set key \<Longrightarrow>
   beforeFirst key (a @ c # rest) = map_option ((@) a) (beforeFirst key (c # rest))"
proof (induction a)
  case Nil
  then show ?case by (simp add: option.map_ident)
next
  case (Cons x a)
  have "\<not> prefix key (x # a @ c # rest)" using Cons.prems by (rule lit_cross)
  moreover have "\<not> includesStr a key" using Cons.prems(1) by simp
  ultimately show ?case using Cons by (simp add: option.map_comp comp_def)
qed

lemma beforeFirst_line:
  assumes "\<not> includesStr l key" and "CHR 0x0A \<notin> set key" and "key \<noteq> []"
  shows "beforeFirst key (l @ NL @ rest) = map_option ((@) (l @ NL)) (beforeFirst key rest)"
proof -
  have "\<not> prefix key (CHR 0x0A # rest)"
    using assms(2,3) by (cases key) auto
  moreover have "(\<lambda>x. l @ CHR 0x0A # x) = (@) (l @ NL)" by auto
  ultimately show ?thesis using beforeFirst_skip [OF assms(1,2), of rest]
    by (simp add: option.map_comp comp_def)
qed

lemma beforeFirst_unl:
  assumes "\<forall>l \<in> set ls. \<not> includesStr l key" and "CHR 0x0A \<notin> set key" and "key \<noteq> []"
  shows "beforeFirst key (unl ls @ rest) = map_option ((@) (unl ls)) (beforeFirst key rest)"
  using assms(1)
proof (induction ls)
  case Nil
  then show ?case by (simp add: unl_def option.map_ident)
next
  case (Cons l ls)
  have "beforeFirst key (l @ NL @ (unl ls @ rest))
        = map_option ((@) (l @ NL)) (beforeFirst key (unl ls @ rest))"
    using Cons.prems assms(2,3) by (intro beforeFirst_line) auto
  then show ?case using Cons by (simp add: unl_def option.map_comp comp_def)
qed

lemma beforeFirst_here: "key \<noteq> [] \<Longrightarrow> beforeFirst key (key @ t) = Some []"
  by (cases key) auto

lemma afterFirst_skip:
  "\<not> includesStr a key \<Longrightarrow> c \<notin> set key \<Longrightarrow>
   afterFirst key (a @ c # rest) = afterFirst key (c # rest)"
proof (induction a)
  case Nil
  then show ?case by simp
next
  case (Cons x a)
  have "\<not> prefix key (x # a @ c # rest)" using Cons.prems by (rule lit_cross)
  moreover have "\<not> includesStr a key" using Cons.prems(1) by simp
  ultimately show ?case using Cons by simp
qed

lemma afterFirst_here: "key \<noteq> [] \<Longrightarrow> afterFirst key (key @ t) = Some t"
  by (cases key) auto

lemma upToStars_line:
  "\<not> includesStr l ''**'' \<Longrightarrow> upToStars (l @ NL @ rest) = l @ NL @ upToStars rest"
proof (induction l)
  case Nil
  then show ?case by simp
next
  case (Cons x l)
  have "\<not> prefix ''**'' (x # l @ NL @ rest)"
    using Cons.prems by (cases l) auto
  moreover have "\<not> includesStr l ''**''" using Cons.prems by simp
  ultimately show ?case using Cons by simp
qed

lemma upToStars_unl:
  "\<forall>l \<in> set ls. \<not> includesStr l ''**'' \<Longrightarrow> upToStars (unl ls @ rest) = unl ls @ upToStars rest"
proof (induction ls)
  case Nil
  then show ?case by (simp add: unl_def)
next
  case (Cons l ls)
  have "upToStars (l @ NL @ (unl ls @ rest)) = l @ NL @ upToStars (unl ls @ rest)"
    using Cons.prems by (intro upToStars_line) auto
  then show ?case using Cons by (simp add: unl_def)
qed

lemma splitOn_line: "c \<notin> set l \<Longrightarrow> splitOn c (l @ c # rest) = l # splitOn c rest"
  by (induction l) auto

lemma splitOn_unl:
  "\<forall>l \<in> set ls. CHR 0x0A \<notin> set l \<Longrightarrow> splitOn (CHR 0x0A) (unl ls @ rest) = ls @ splitOn (CHR 0x0A) rest"
proof (induction ls)
  case Nil
  then show ?case by (simp add: unl_def)
next
  case (Cons l ls)
  have "splitOn (CHR 0x0A) (l @ CHR 0x0A # (unl ls @ rest)) = l # splitOn (CHR 0x0A) (unl ls @ rest)"
    using Cons.prems by (intro splitOn_line) auto
  then show ?case using Cons by (simp add: unl_def)
qed

lemma join_unl: "join NL (ls @ [e]) = unl ls @ e"
proof (induction ls)
  case Nil
  then show ?case by (simp add: unl_def)
next
  case (Cons l ls)
  then show ?case by (cases "ls @ [e]") (auto simp: unl_def)
qed

lemma unl_append: "unl (a @ b) = unl a @ unl b"
  by (simp add: unl_def)

lemma unl_Cons: "unl (l # ls) = l @ NL @ unl ls"
  by (simp add: unl_def)

section \<open>Decimal numbers\<close>

lemma digitChar_props: "d < 10 \<Longrightarrow> isDigit (digitChar d) \<and> digitVal (digitChar d) = d"
  by (simp add: isDigit_def digitVal_def digitChar_def)

lemma showNat_digits: "list_all isDigit (showNat n) \<and> showNat n \<noteq> []"
proof (induction n rule: showNat.induct)
  case (1 n)
  show ?case
  proof (cases "n < 10")
    case True
    then show ?thesis by (subst (1 2) showNat.simps) (simp add: digitChar_props)
  next
    case False
    then show ?thesis using 1 by (subst (1 2) showNat.simps) (simp add: digitChar_props)
  qed
qed

lemma parseDigits_snoc: "parseDigits (a @ [c]) = 10 * parseDigits a + digitVal c"
  by (simp add: parseDigits_def)

lemma parseDigits_showNat: "parseDigits (showNat n) = n"
proof (induction n rule: showNat.induct)
  case (1 n)
  show ?case
  proof (cases "n < 10")
    case True
    then show ?thesis by (subst showNat.simps) (simp add: parseDigits_def digitChar_props)
  next
    case False
    then show ?thesis using 1
      by (subst showNat.simps) (simp add: parseDigits_snoc digitChar_props)
  qed
qed

lemma digit_not_space: "isDigit c \<Longrightarrow> \<not> isSpace c"
  by (auto simp: isDigit_def isSpace_def)

lemma captureClass_digits:
  "captureClass isDigit (CHR '' '' # showNat n @ CHR 0x0A # rest) = Some (showNat n)"
proof -
  obtain d ds where ds: "showNat n = d # ds" using showNat_digits [of n] by (cases "showNat n") auto
  have all: "\<forall>x \<in> set (showNat n). isDigit x" using showNat_digits [of n] by (simp add: list_all_iff)
  then have "\<not> isSpace d" using ds digit_not_space by simp
  then have drop: "dropWhile isSpace (CHR '' '' # showNat n @ CHR 0x0A # rest) = showNat n @ CHR 0x0A # rest"
    using ds by (simp add: isSpace_def)
  have "takeWhile isDigit (showNat n @ CHR 0x0A # rest) = showNat n"
    using all by (simp add: takeWhile_tail isDigit_def)
  then show ?thesis using drop ds by (simp add: captureClass_def)
qed

section \<open>The block between the markers\<close>

lemma END_facts: "CHR 0x0A \<notin> set METADATA_END" "METADATA_END \<noteq> []"
  by (simp_all add: METADATA_END_def)

lemma metadataMatch_block:
  assumes "\<forall>l \<in> set inner. \<not> includesStr l METADATA_END"
  shows "metadataMatch (METADATA_SEPARATOR @ NL @ unl inner @ METADATA_END @ rest) = Some (NL @ unl inner)"
proof -
  have "beforeFirst METADATA_END (unl inner @ METADATA_END @ rest)
        = map_option ((@) (unl inner)) (beforeFirst METADATA_END (METADATA_END @ rest))"
    using assms END_facts by (intro beforeFirst_unl) auto
  then have "beforeFirst METADATA_END (unl inner @ METADATA_END @ rest) = Some (unl inner)"
    by (simp add: beforeFirst_here END_facts)
  moreover have "beforeFirst METADATA_END ([] @ NL @ unl inner @ METADATA_END @ rest)
        = map_option ((@) ([] @ NL)) (beforeFirst METADATA_END (unl inner @ METADATA_END @ rest))"
    using END_facts by (intro beforeFirst_line) (auto simp: METADATA_END_def)
  ultimately have "beforeFirst METADATA_END (NL @ unl inner @ METADATA_END @ rest) = Some (NL @ unl inner)"
    by simp
  then show ?thesis unfolding metadataMatch_def by (rule firstMatch_lit_here)
qed

lemma includes_END_E: "includesStr s METADATA_END \<Longrightarrow> CHR ''E'' \<in> set s"
proof -
  assume "includesStr s METADATA_END"
  then have "sublist METADATA_END s" by (simp add: includesStr_sublist)
  then have "set METADATA_END \<subseteq> set s" by (rule set_mono_sublist)
  then show ?thesis by (auto simp: METADATA_END_def)
qed

lemma includes_prefixed:
  assumes "prefix [a, b] K" and "\<not> includesStr p [a, b]" and "p = [] \<or> last p \<noteq> a"
    and "\<not> includesStr s K"
  shows "\<not> includesStr (p @ s) K"
  using assms(2,3)
proof (induction p)
  case Nil
  then show ?case using assms(4) by simp
next
  case (Cons x p)
  obtain K' where K: "K = a # b # K'" using assms(1) by (auto simp: prefix_def)
  have "\<not> prefix K (x # p @ s)"
  proof
    assume pre: "prefix K (x # p @ s)"
    show False
    proof (cases p)
      case Nil
      then show ?thesis using pre K Cons.prems by simp
    next
      case (Cons y p')
      then show ?thesis using pre K Cons.prems by simp
    qed
  qed
  moreover have "\<not> includesStr (p @ s) K"
  proof (rule Cons.IH)
    show "\<not> includesStr p [a, b]" using Cons.prems(1) by simp
    show "p = [] \<or> last p \<noteq> a" using Cons.prems(2) by (cases p) auto
  qed
  ultimately show ?case by simp
qed

lemma showNat_no_END: "\<not> includesStr (showNat n) METADATA_END"
proof
  assume "includesStr (showNat n) METADATA_END"
  then have "CHR ''E'' \<in> set (showNat n)" by (rule includes_END_E)
  moreover have "\<forall>x \<in> set (showNat n). isDigit x" using showNat_digits [of n] by (simp add: list_all_iff)
  ultimately show False by (auto simp: isDigit_def)
qed

lemma END_prefixed:
  "\<not> includesStr p ''--'' \<Longrightarrow> p = [] \<or> last p \<noteq> CHR ''-'' \<Longrightarrow>
   \<not> includesStr s METADATA_END \<Longrightarrow> \<not> includesStr (p @ s) METADATA_END"
  by (rule includes_prefixed [where a = "CHR ''-''" and b = "CHR ''-''"])
     (simp_all add: METADATA_END_def)

lemma effortMatch_line:
  "effortMatch (NL @ unl [''**Effort:** '' @ showNat n]) = Some (showNat n)"
proof -
  have "firstMatch (lit ''**Effort:**'' (captureClass isDigit)) ([] @ NL @ unl [''**Effort:** '' @ showNat n])
        = firstMatch (lit ''**Effort:**'' (captureClass isDigit)) (unl [''**Effort:** '' @ showNat n])"
    by (rule firstMatch_lit_line) simp_all
  moreover have "firstMatch (lit ''**Effort:**'' (captureClass isDigit))
          (''**Effort:**'' @ (CHR '' '' # showNat n @ CHR 0x0A # [])) = Some (showNat n)"
    by (rule firstMatch_lit_here) (rule captureClass_digits)
  ultimately show ?thesis by (simp add: effortMatch_def unl_def)
qed

text \<open>
  C10. \<open>parseMetadata\<close> returns the number written after the effort key without
  checking that it is an effort value: for every \<open>n\<close> below \<open>2 ^ 53\<close>, a block whose
  only line is the effort line for \<open>n\<close> decodes to effort \<open>n\<close>. So a block with the line
  \<^verbatim>\<open>**Effort:** 4\<close> decodes to effort 4, which is not in the effort set.
\<close>

theorem C10_effort_unchecked:
  assumes "n < 2 ^ 53"
  shows "m_effort (parseMetadata
           (METADATA_SEPARATOR @ NL @ ''**Effort:** '' @ showNat n @ NL @ METADATA_END)) = int n"
proof -
  have "\<forall>l \<in> set [''**Effort:** '' @ showNat n]. \<not> includesStr l METADATA_END"
    using END_prefixed [of "''**Effort:** ''" "showNat n"] showNat_no_END [of n] by simp
  then have "metadataMatch (METADATA_SEPARATOR @ NL @ unl [''**Effort:** '' @ showNat n] @ METADATA_END @ [])
        = Some (NL @ unl [''**Effort:** '' @ showNat n])"
    by (rule metadataMatch_block)
  moreover have "METADATA_SEPARATOR @ NL @ unl [''**Effort:** '' @ showNat n] @ METADATA_END @ []
        = METADATA_SEPARATOR @ NL @ ''**Effort:** '' @ showNat n @ NL @ METADATA_END"
    by (simp add: unl_def)
  ultimately have mm: "metadataMatch (METADATA_SEPARATOR @ NL @ ''**Effort:** '' @ showNat n @ NL @ METADATA_END)
        = Some (NL @ unl [''**Effort:** '' @ showNat n])"
    by simp
  show ?thesis
    unfolding parseMetadata_def mm option.case effortMatch_line
    by (simp add: parseDigits_showNat)
qed

theorem C10_effort_unchecked_witness:
  "m_effort (parseMetadata (''---WORKFLOW-METADATA---'' @ NL @ ''**Effort:** 4'' @ NL @ ''---END-METADATA---'')) = 4
   \<and> \<not> isFibonacciEffort 4 \<and> (4::nat) < 2 ^ 53"
proof -
  have s: "showNat 4 = ''4''" by code_simp
  have "m_effort (parseMetadata
           (METADATA_SEPARATOR @ NL @ ''**Effort:** '' @ showNat 4 @ NL @ METADATA_END)) = int 4"
    by (rule C10_effort_unchecked) simp
  then show ?thesis
    by (simp add: s METADATA_SEPARATOR_def METADATA_END_def isFibonacciEffort_def FIBONACCI_EFFORT_VALUES_def)
qed

section \<open>Stripping the block\<close>

lemma metadataLines_inner: "metadataLines m = METADATA_SEPARATOR # innerLines m @ [METADATA_END]"
  by (simp add: metadataLines_def innerLines_def)

lemma build_text:
  "buildDescriptionWithMetadata plain m
     = METADATA_SEPARATOR @ NL @ unl (innerLines m) @ METADATA_END @ NL @ NL @ plain"
proof -
  have "join NL (metadataLines m) = unl (METADATA_SEPARATOR # innerLines m) @ METADATA_END"
    using join_unl [of "METADATA_SEPARATOR # innerLines m" METADATA_END]
    by (simp add: metadataLines_inner)
  then show ?thesis by (simp add: buildDescriptionWithMetadata_def unl_Cons)
qed

lemma afterFirst_skip2:
  "\<not> includesStr a k1 \<Longrightarrow> c \<notin> set k1 \<Longrightarrow>
   afterFirst (k1 @ k2) (a @ c # rest) = afterFirst (k1 @ k2) (c # rest)"
proof (induction a)
  case Nil
  then show ?case by simp
next
  case (Cons x a)
  have "\<not> prefix k1 (x # a @ c # rest)" using Cons.prems by (rule lit_cross)
  then have "\<not> prefix (k1 @ k2) (x # a @ c # rest)" using append_prefixD by blast
  moreover have "\<not> includesStr a k1" using Cons.prems(1) by simp
  ultimately show ?case using Cons by simp
qed

lemma afterFirst_line2:
  assumes "\<not> includesStr l k1" and "CHR 0x0A \<notin> set k1" and "k1 \<noteq> []"
  shows "afterFirst (k1 @ k2) (l @ NL @ rest) = afterFirst (k1 @ k2) rest"
proof -
  have "\<not> prefix k1 (CHR 0x0A # rest)"
    using assms(2,3) by (cases k1) auto
  then have "\<not> prefix (k1 @ k2) (CHR 0x0A # rest)" using append_prefixD by blast
  then show ?thesis using afterFirst_skip2 [OF assms(1,2), of k2 rest] by simp
qed

lemma afterFirst_unl2:
  assumes "\<forall>l \<in> set ls. \<not> includesStr l k1" and "CHR 0x0A \<notin> set k1" and "k1 \<noteq> []"
  shows "afterFirst (k1 @ k2) (unl ls @ rest) = afterFirst (k1 @ k2) rest"
  using assms(1)
proof (induction ls)
  case Nil
  then show ?case by (simp add: unl_def)
next
  case (Cons l ls)
  have "afterFirst (k1 @ k2) (l @ NL @ (unl ls @ rest)) = afterFirst (k1 @ k2) (unl ls @ rest)"
    using Cons.prems assms(2,3) by (intro afterFirst_line2) auto
  then show ?case using Cons by (simp add: unl_def)
qed

lemma replaceFirst_here: "key \<noteq> [] \<Longrightarrow> k t = Some r \<Longrightarrow> replaceFirst (lit key k) (key @ t) = r"
  by (cases key) (auto simp: lit_def)

lemma extract_block:
  assumes "\<forall>l \<in> set inner. \<not> includesStr l METADATA_END"
  shows "extractPlainDescription (METADATA_SEPARATOR @ NL @ unl inner @ METADATA_END @ NL @ NL @ plain)
         = trim plain"
proof -
  let ?K = "METADATA_END @ NL @ NL"
  have "afterFirst ?K (unl inner @ (?K @ plain)) = afterFirst ?K (?K @ plain)"
    using assms END_facts by (intro afterFirst_unl2) auto
  moreover have "afterFirst ?K (?K @ plain) = Some plain"
    by (rule afterFirst_here) simp
  ultimately have "afterFirst ?K (unl inner @ (?K @ plain)) = Some plain"
    by (rule trans)
  moreover have "afterFirst ?K ([] @ NL @ (unl inner @ (?K @ plain))) = afterFirst ?K (unl inner @ (?K @ plain))"
    using END_facts by (intro afterFirst_line2) (auto simp: METADATA_END_def)
  ultimately have "afterFirst ?K (NL @ unl inner @ METADATA_END @ NL @ NL @ plain) = Some plain"
    by simp
  then have "replaceFirst (lit METADATA_SEPARATOR (afterFirst ?K))
               (METADATA_SEPARATOR @ (NL @ unl inner @ METADATA_END @ NL @ NL @ plain)) = plain"
    by (intro replaceFirst_here) (simp_all add: METADATA_SEPARATOR_def)
  then show ?thesis by (simp add: extractPlainDescription_def)
qed

lemma goalText_endFree: "endFreeOpt g \<Longrightarrow> \<not> includesStr (goalText g) METADATA_END"
  by (cases g) (auto simp: goalText_def truthy_def endFreeOpt_def METADATA_END_def)

lemma showInt_no_END: "\<not> includesStr (showInt i) METADATA_END"
proof
  assume "includesStr (showInt i) METADATA_END"
  then have "CHR ''E'' \<in> set (showInt i)" by (rule includes_END_E)
  moreover have "\<forall>x \<in> set (showNat (nat i)). isDigit x" "\<forall>x \<in> set (showNat (nat (- i))). isDigit x"
    using showNat_digits by (simp_all add: list_all_iff)
  ultimately show False by (auto simp: isDigit_def showInt_def split: if_splits)
qed

lemma optLine_endFree:
  "endFreeOpt x \<Longrightarrow> \<not> includesStr p ''--'' \<Longrightarrow> p = [] \<or> last p \<noteq> CHR ''-'' \<Longrightarrow>
   \<forall>l \<in> set (optLine p x). \<not> includesStr l METADATA_END"
  by (cases x) (auto simp: optLine_def endFreeOpt_def dest: END_prefixed)

lemma uncertaintyLines_endFree:
  assumes "endFreeUncertainty u"
  shows "\<forall>l \<in> set (uncertaintyLines u). \<not> includesStr l METADATA_END"
proof -
  have t: "\<not> includesStr (u_title u) METADATA_END" and d: "endFreeOpt (u_description u)"
    and r: "endFreeOpt (u_resolution u)" and a: "endFreeOpt (u_resolvedAt u)"
    and b: "endFreeOpt (u_resolvedBy u)"
    using assms by (simp_all add: endFreeUncertainty_def)
  have "\<not> includesStr (''- [x] '' @ u_title u) METADATA_END"
    by (rule END_prefixed [OF _ _ t]) simp_all
  moreover have "\<not> includesStr (''- [ ] '' @ u_title u) METADATA_END"
    by (rule END_prefixed [OF _ _ t]) simp_all
  ultimately have "\<not> includesStr (''- ['' @ (if truthy (u_resolution u) then ''x'' else '' '') @ ''] '' @ u_title u) METADATA_END"
    by simp
  moreover have "\<forall>l \<in> set (optLine ''  - Description: '' (u_description u)). \<not> includesStr l METADATA_END"
    using d by (rule optLine_endFree) simp_all
  moreover have "\<forall>l \<in> set (optLine ''  - Resolution: '' (u_resolution u)). \<not> includesStr l METADATA_END"
    using r by (rule optLine_endFree) simp_all
  moreover have "\<forall>l \<in> set (optLine ''  - Resolved By: '' (u_resolvedBy u)). \<not> includesStr l METADATA_END"
    using b by (rule optLine_endFree) simp_all
  moreover have "\<forall>l \<in> set (optLine ''  - Resolved At: '' (u_resolvedAt u)). \<not> includesStr l METADATA_END"
    using a by (rule optLine_endFree) simp_all
  ultimately show ?thesis unfolding uncertaintyLines_def by auto
qed

lemma lessonLine_endFree:
  assumes "\<not> includesStr (l_content l) METADATA_END"
  shows "\<not> includesStr (lessonLine l) METADATA_END"
proof -
  have "\<And>p. \<not> includesStr p ''--'' \<Longrightarrow> p = [] \<or> last p \<noteq> CHR ''-'' \<Longrightarrow>
     \<not> includesStr (p @ l_content l) METADATA_END"
    using assms END_prefixed by blast
  note e = this
  show ?thesis
  proof (cases "l_category l")
    case None
    then show ?thesis using e [of "''-  ''"] by (simp add: lessonLine_def)
  next
    case (Some c)
    then show ?thesis
      using e [of "''- [pattern] ''"] e [of "''- [decision] ''"] e [of "''- [gotcha] ''"]
        e [of "''- [solution] ''"] e [of "''- [performance] ''"] e [of "''- [balance] ''"]
      by (cases c) (simp_all add: lessonLine_def categoryName_def)
  qed
qed

lemma innerLines_endFree:
  assumes "endFree m"
  shows "\<forall>l \<in> set (innerLines m). \<not> includesStr l METADATA_END"
proof -
  have g: "\<not> includesStr (''**Goal:** '' @ goalText (m_goal m)) METADATA_END"
    using assms by (intro END_prefixed goalText_endFree) (simp_all add: endFree_def)
  have e: "\<not> includesStr (''**Effort:** '' @ showInt (m_effort m)) METADATA_END"
    by (intro END_prefixed showInt_no_END) simp_all
  have r: "\<forall>l \<in> set (optLine ''**Effort Reason:** '' (m_effortReason m)). \<not> includesStr l METADATA_END"
    using assms by (intro optLine_endFree) (simp_all add: endFree_def)
  have b: "\<forall>l \<in> set (optLine ''**Complexity Bias:** '' (m_complexityBias m)). \<not> includesStr l METADATA_END"
    using assms by (intro optLine_endFree) (simp_all add: endFree_def)
  have h: "\<not> includesStr [] METADATA_END" "\<not> includesStr ''**Uncertainties:**'' METADATA_END"
    "\<not> includesStr ''**Lessons Learned:**'' METADATA_END"
    by (simp_all add: METADATA_END_def)
  have u: "\<forall>l \<in> set (concat (map uncertaintyLines (m_uncertainties m))). \<not> includesStr l METADATA_END"
    using assms uncertaintyLines_endFree by (auto simp: endFree_def list_all_iff)
  have l: "\<forall>l \<in> set (map lessonLine (m_lessonsLearned m)). \<not> includesStr l METADATA_END"
    using assms lessonLine_endFree by (auto simp: endFree_def list_all_iff)
  show ?thesis unfolding innerLines_def using g e r b h u l by auto
qed

text \<open>
  C9, as the code has it. For every plain text and every metadata value none of whose
  encoded strings contains the end marker, stripping the encoded description gives the
  trimmed plain text. (Nothing is asked of the plain text.)
\<close>

theorem C9_strip_encoded:
  assumes "endFree m"
  shows "extractPlainDescription (buildDescriptionWithMetadata plain m) = trim plain"
  unfolding build_text using innerLines_endFree [OF assms] by (rule extract_block)

theorem C9_strip_encoded_witness:
  "endFree emptyMetadata
   \<and> extractPlainDescription (buildDescriptionWithMetadata '' Plain description '' emptyMetadata)
       = ''Plain description''"
proof -
  have e: "endFree emptyMetadata"
    by (simp add: endFree_def emptyMetadata_def endFreeOpt_def)
  have "trim '' Plain description '' = ''Plain description''"
    by (simp add: trim_def trimStart_def trimEnd_def isSpace_def)
  then show ?thesis using C9_strip_encoded [OF e, of "'' Plain description ''"] e by simp
qed

lemma showInt_5: "showInt 5 = ''5''"
  by code_simp

lemma build_markerReason:
  "buildDescriptionWithMetadata ''p'' markerReason
   = ''---WORKFLOW-METADATA---'' @ NL @ ''**Goal:** Not specified'' @ NL @ ''**Effort:** 5'' @ NL
     @ ''**Effort Reason:** ---END-METADATA---'' @ NL @ NL @ ''**Uncertainties:**'' @ NL @ NL
     @ ''**Lessons Learned:**'' @ NL @ ''---END-METADATA---'' @ NL @ NL @ ''p''"
  by (simp add: buildDescriptionWithMetadata_def metadataLines_def markerReason_def
      emptyMetadata_def goalText_def truthy_def optLine_def showInt_5
      METADATA_SEPARATOR_def METADATA_END_def)

text \<open>
  C9 as stated fails: the plain text \<open>p\<close> contains no marker, but with a metadata value
  whose effort reason is the end marker, stripping cuts the block at that line and leaves
  the rest of the block in front of the plain text.
\<close>

theorem C9_marker_in_metadata_counterexample:
  "extractPlainDescription (buildDescriptionWithMetadata ''p'' markerReason)
     = ''**Uncertainties:**'' @ NL @ NL @ ''**Lessons Learned:**'' @ NL @ ''---END-METADATA---'' @ NL @ NL @ ''p''
   \<and> extractPlainDescription (buildDescriptionWithMetadata ''p'' markerReason) \<noteq> trim ''p''
   \<and> \<not> includesStr ''p'' METADATA_SEPARATOR \<and> \<not> includesStr ''p'' METADATA_END"
proof -
  have x: "extractPlainDescription (buildDescriptionWithMetadata ''p'' markerReason)
     = ''**Uncertainties:**'' @ NL @ NL @ ''**Lessons Learned:**'' @ NL @ ''---END-METADATA---'' @ NL @ NL @ ''p''"
    unfolding build_markerReason
    by (simp add: extractPlainDescription_def lit_def METADATA_SEPARATOR_def METADATA_END_def
        trim_def trimStart_def trimEnd_def isSpace_def)
  have t: "trim ''p'' = ''p''"
    by (simp add: trim_def trimStart_def trimEnd_def isSpace_def)
  show ?thesis unfolding x t by (simp add: METADATA_SEPARATOR_def METADATA_END_def)
qed


end
